theory Spec2Isabelle
  imports Main "HOL-Library.Word" "HOL-Library.Log_Nat"
begin

section \<open>Strings\<close>

text \<open>
  A TypeScript string is a finite sequence of 16-bit code units, and \<open>===\<close> on two
  strings compares these sequences. The stores only compare strings and hand them on,
  so a string is modelled as the list of its code units. \<open>ascii\<close> turns an ASCII
  literal into such a list; the Korean literals of the source are written out as their
  code units (all of them lie in the Basic Multilingual Plane, one unit per character).
\<close>

type_synonym js_string = "16 word list"

definition ascii :: "string \<Rightarrow> js_string" where
  "ascii s = map of_char s"

section \<open>The auth store (src/stores/auth.store.ts)\<close>

subsection \<open>Types\<close>

text \<open>
  \<open>User\<close>, \<open>LoginInput\<close> and \<open>AuthState\<close> are the object types of the source. The field
  \<open>id\<close> of \<open>User\<close> is \<open>id_field\<close> here (\<open>id\<close> is the identity function of HOL), and the
  fields of \<open>LoginInput\<close> carry the prefix \<open>input_\<close> to keep them apart from the field
  \<open>email\<close> of \<open>User\<close>. A field of type \<open>T | null\<close> is a \<open>T option\<close>, \<open>null\<close> being \<open>None\<close>.
\<close>

record User =
  id_field :: js_string
  name :: js_string
  email :: js_string

record LoginInput =
  input_email :: js_string
  input_password :: js_string

record AuthState =
  user :: "User option"
  isAuthenticated :: bool
  isLoading :: bool
  error :: "js_string option"

text \<open>
  A value caught by \<open>catch (e)\<close>: an instance of \<open>Error\<close> with its \<open>message\<close>, or any
  other thrown value.
\<close>

datatype thrown = ErrorObject js_string | OtherValue

subsection \<open>The literals of the source\<close>

definition testUserName :: js_string where
  \<comment> \<open>the name of the test user, five Hangul syllables\<close>
  "testUserName = [0xD14C, 0xC2A4, 0xD2B8, 0xC720, 0xC800]"

definition invalidCredentialsMessage :: js_string where
  \<comment> \<open>the message of the \<open>Error\<close> that \<open>fakeLoginApi\<close> rejects with (23 code units)\<close>
  "invalidCredentialsMessage =
     [0xC774, 0xBA54, 0xC77C, 0x0020, 0xB610, 0xB294, 0x0020, 0xBE44, 0xBC00, 0xBC88,
      0xD638, 0xAC00, 0x0020, 0xC62C, 0xBC14, 0xB974, 0xC9C0, 0x0020, 0xC54A, 0xC2B5,
      0xB2C8, 0xB2E4, 0x002E]"

definition unknownErrorMessage :: js_string where
  \<comment> \<open>the message \<open>login\<close> stores when the caught value is no \<open>Error\<close> (24 code units)\<close>
  "unknownErrorMessage =
     [0xB85C, 0xADF8, 0xC778, 0x0020, 0xC911, 0x0020, 0xC54C, 0x0020, 0xC218, 0x0020,
      0xC5C6, 0xB294, 0x0020, 0xC624, 0xB958, 0xAC00, 0x0020, 0xBC1C, 0xC0DD, 0xD588,
      0xC2B5, 0xB2C8, 0xB2E4, 0x002E]"

subsection \<open>fakeLoginApi\<close>

text \<open>
  The promise returned by \<open>fakeLoginApi\<close> settles after 700 ms: it is resolved with a
  user (\<open>Inr\<close>) or rejected with an \<open>Error\<close> (\<open>Inl\<close>). The model is the value it settles
  with; the delay only separates the two state changes of \<open>login\<close> below.
\<close>

definition fakeLoginApi :: "LoginInput \<Rightarrow> thrown + User" where
  "fakeLoginApi input =
     (if input_email input = ascii ''test@test.com'' \<and> input_password input = ascii ''1234''
      then Inr \<lparr>id_field = ascii ''u_1'', name = testUserName, email = input_email input\<rparr>
      else Inl (ErrorObject invalidCredentialsMessage))"

subsection \<open>State and actions\<close>

text \<open>
  \<open>set(patch)\<close> of the store merges the fields of \<open>patch\<close> into the current state and
  leaves the other fields as they are: a record update of exactly the fields of the
  patch. Each action is a function from the state before to the state after.
\<close>

definition initialAuthState :: AuthState where
  "initialAuthState = \<lparr>user = None, isAuthenticated = False, isLoading = False, error = None\<rparr>"

text \<open>
  \<open>login\<close> changes the state twice. \<open>login_start\<close> is the \<open>set\<close> before the \<open>await\<close>;
  \<open>login_settle\<close> is the rest of the function, run when the promise has settled with
  \<open>r\<close>: the \<open>set\<close> of the \<open>try\<close> block or the one of the \<open>catch\<close> block. The call is
  suspended at the \<open>await\<close> for 700 ms, and other actions may change the state between
  the two; \<open>login\<close> itself is defined below, after the state changes it can meet.
\<close>

definition login_start :: "AuthState \<Rightarrow> AuthState" where
  "login_start s = s\<lparr>isLoading := True, error := None\<rparr>"

definition login_settle :: "thrown + User \<Rightarrow> AuthState \<Rightarrow> AuthState" where
  "login_settle r s =
     (case r of
        Inr u \<Rightarrow> s\<lparr>user := Some u, isAuthenticated := True, isLoading := False\<rparr>
      | Inl e \<Rightarrow>
          (let message = (case e of ErrorObject m \<Rightarrow> m | OtherValue \<Rightarrow> unknownErrorMessage)
           in s\<lparr>user := None, isAuthenticated := False, isLoading := False,
                 error := Some message\<rparr>))"

definition logout :: "AuthState \<Rightarrow> AuthState" where
  "logout s = s\<lparr>user := None, isAuthenticated := False, error := None\<rparr>"

definition setUser :: "User option \<Rightarrow> AuthState \<Rightarrow> AuthState" where
  \<comment> \<open>\<open>Boolean(user)\<close> is true for an object and false for \<open>null\<close>\<close>
  "setUser u s = s\<lparr>user := u, isAuthenticated := (u \<noteq> None)\<rparr>"

definition clearError :: "AuthState \<Rightarrow> AuthState" where
  "clearError s = s\<lparr>error := None\<rparr>"

subsection \<open>Sequences of state changes\<close>

text \<open>
  Every state change the store can make is one \<open>auth_event\<close>: a call of \<open>login\<close> reaching
  its first \<open>set\<close>, a pending \<open>login\<close> call settling, or a call of one of the three
  synchronous actions. \<open>run_auth\<close> applies a sequence of them in order. Sequences in
  which a login settles that never started are included: they only add states.
\<close>

datatype auth_event =
    LoginStart LoginInput
  | LoginSettle LoginInput
  | Logout
  | SetUser "User option"
  | ClearError

fun auth_step :: "auth_event \<Rightarrow> AuthState \<Rightarrow> AuthState" where
  "auth_step (LoginStart input) s = login_start s"
| "auth_step (LoginSettle input) s = login_settle (fakeLoginApi input) s"
| "auth_step Logout s = logout s"
| "auth_step (SetUser u) s = setUser u s"
| "auth_step ClearError s = clearError s"

fun run_auth :: "auth_event list \<Rightarrow> AuthState \<Rightarrow> AuthState" where
  "run_auth [] s = s"
| "run_auth (ev # evs) s = run_auth evs (auth_step ev s)"

text \<open>
  One call of \<open>login\<close>, from its first \<open>set\<close> to its last: \<open>evs\<close> are the state changes
  that other calls make while this call waits at its \<open>await\<close> (none, when the call runs
  alone), and \<open>s\<close> is the state the call finds.
\<close>

definition login :: "LoginInput \<Rightarrow> auth_event list \<Rightarrow> AuthState \<Rightarrow> AuthState" where
  "login input evs s = login_settle (fakeLoginApi input) (run_auth evs (login_start s))"

definition auth_invariant :: "AuthState \<Rightarrow> bool" where
  "auth_invariant s = (isAuthenticated s = (user s \<noteq> None))"

section \<open>Numbers\<close>

text \<open>
  The TypeScript type \<open>number\<close> is the IEEE 754 double. The counter starts at 0 and the
  properties of interest give its actions integers, so the model holds the values a
  double takes then: an integer (\<open>Finite\<close>; both zeros are \<open>Finite 0\<close>), the two
  infinities (a sum can overflow) and \<open>NaN\<close>. Fractions are outside the model.

  Every integer of magnitude at most \<open>2 ^ 53\<close> is a double. A larger integer is one if
  it fits 53 significant bits and lies below \<open>2 ^ 1024\<close>. \<open>+\<close> and \<open>-\<close> return the exact
  result rounded to the nearest double, a tie going to the even significand and a
  result of \<open>2 ^ 1024\<close> or more in magnitude to an infinity.
\<close>

datatype number = Finite int | PosInfinity | NegInfinity | NaN

definition representable :: "int \<Rightarrow> bool" where
  "representable z =
     (let m = \<bar>z\<bar>
      in m \<le> 2 ^ 53 \<or> (m < 2 ^ 1024 \<and> m mod 2 ^ nat (bitlen m - 53) = 0))"

definition round_to_number :: "int \<Rightarrow> number" where
  "round_to_number z =
     (let m = \<bar>z\<bar>
      in if m \<le> 2 ^ 53 then Finite z
         else
           (let e = nat (bitlen m - 53);
                q = m div 2 ^ e;
                r = m mod 2 ^ e;
                h = 2 ^ (e - 1);
                q' = (if r < h \<or> (r = h \<and> even q) then q else q + 1);
                v = q' * 2 ^ e
            in if 2 ^ 1024 \<le> v then (if 0 < z then PosInfinity else NegInfinity)
               else Finite (sgn z * v)))"

fun number_add :: "number \<Rightarrow> number \<Rightarrow> number" where
  "number_add (Finite a) (Finite b) = round_to_number (a + b)"
| "number_add NaN y = NaN"
| "number_add x NaN = NaN"
| "number_add PosInfinity NegInfinity = NaN"
| "number_add NegInfinity PosInfinity = NaN"
| "number_add PosInfinity y = PosInfinity"
| "number_add x PosInfinity = PosInfinity"
| "number_add NegInfinity y = NegInfinity"
| "number_add x NegInfinity = NegInfinity"

fun number_sub :: "number \<Rightarrow> number \<Rightarrow> number" where
  "number_sub (Finite a) (Finite b) = round_to_number (a - b)"
| "number_sub NaN y = NaN"
| "number_sub x NaN = NaN"
| "number_sub PosInfinity PosInfinity = NaN"
| "number_sub NegInfinity NegInfinity = NaN"
| "number_sub PosInfinity y = PosInfinity"
| "number_sub NegInfinity y = NegInfinity"
| "number_sub x PosInfinity = NegInfinity"
| "number_sub x NegInfinity = PosInfinity"

fun number_gt :: "number \<Rightarrow> number \<Rightarrow> bool" where
  "number_gt (Finite a) (Finite b) = (b < a)"
| "number_gt NaN y = False"
| "number_gt x NaN = False"
| "number_gt PosInfinity PosInfinity = False"
| "number_gt PosInfinity y = True"
| "number_gt x PosInfinity = False"
| "number_gt NegInfinity y = False"
| "number_gt x NegInfinity = True"

section \<open>The counter store (src/stores/counter.store.ts)\<close>

record CounterState =
  count :: number

definition initialCounterState :: CounterState where
  "initialCounterState = \<lparr>count = Finite 0\<rparr>"

text \<open>
  \<open>increase\<close> and \<open>decrease\<close> pass \<open>set\<close> a function of the current state, \<open>increaseBy\<close>
  reads it with \<open>get()\<close>; either way the patch is computed from the state the action
  finds. The parameter \<open>by\<close> of \<open>increaseBy\<close> is \<open>n\<close> here.
\<close>

definition increase :: "CounterState \<Rightarrow> CounterState" where
  "increase state = state\<lparr>count := number_add (count state) (Finite 1)\<rparr>"

definition decrease :: "CounterState \<Rightarrow> CounterState" where
  "decrease state = state\<lparr>count := number_sub (count state) (Finite 1)\<rparr>"

definition increaseBy :: "number \<Rightarrow> CounterState \<Rightarrow> CounterState" where
  "increaseBy n state = state\<lparr>count := number_add (count state) n\<rparr>"

definition reset :: "CounterState \<Rightarrow> CounterState" where
  "reset state = state\<lparr>count := Finite 0\<rparr>"

definition canDecrease :: "CounterState \<Rightarrow> bool" where
  "canDecrease state = number_gt (count state) (Finite 0)"

section \<open>Properties of the auth store\<close>

subsection \<open>Supporting lemmas\<close>

lemma auth_step_invariant: "auth_invariant s \<Longrightarrow> auth_invariant (auth_step ev s)"
  by (cases ev)
    (simp_all add: auth_invariant_def login_start_def login_settle_def logout_def
      setUser_def clearError_def split: sum.splits thrown.splits)

lemma run_auth_invariant: "auth_invariant s \<Longrightarrow> auth_invariant (run_auth evs s)"
proof (induction evs arbitrary: s)
  case Nil
  then show ?case by simp
next
  case (Cons ev evs)
  from Cons.prems have "auth_invariant (auth_step ev s)"
    by (rule auth_step_invariant)
  then show ?case by (simp add: Cons.IH)
qed

lemma initialAuthState_invariant: "auth_invariant initialAuthState"
  by (simp add: auth_invariant_def initialAuthState_def)

text \<open>
  The \<open>set\<close> of the \<open>try\<close> block has no field \<open>error\<close>: when the promise is resolved,
  \<open>error\<close> stays what it is at that moment.
\<close>

lemma login_settle_resolved:
  "login_settle (Inr u) s =
     \<lparr>user = Some u, isAuthenticated = True, isLoading = False, error = error s\<rparr>"
  by (simp add: login_settle_def)

lemma login_settle_rejected:
  "login_settle (Inl e) s =
     \<lparr>user = None, isAuthenticated = False, isLoading = False,
      error = Some (case e of ErrorObject m \<Rightarrow> m | OtherValue \<Rightarrow> unknownErrorMessage)\<rparr>"
  by (simp add: login_settle_def)

lemma invalidCredentialsMessage_nonempty: "invalidCredentialsMessage \<noteq> []"
  by (simp add: invalidCredentialsMessage_def)

lemma unknownErrorMessage_nonempty: "unknownErrorMessage \<noteq> []"
  by (simp add: unknownErrorMessage_def)

lemma fakeLoginApi_accepts:
  "input_email input = ascii ''test@test.com'' \<Longrightarrow> input_password input = ascii ''1234'' \<Longrightarrow>
   fakeLoginApi input =
     Inr \<lparr>id_field = ascii ''u_1'', name = testUserName, email = ascii ''test@test.com''\<rparr>"
  by (simp add: fakeLoginApi_def)

lemma fakeLoginApi_rejects:
  "\<not> (input_email input = ascii ''test@test.com'' \<and> input_password input = ascii ''1234'') \<Longrightarrow>
   fakeLoginApi input = Inl (ErrorObject invalidCredentialsMessage)"
  by (simp add: fakeLoginApi_def)

text \<open>
  Other state changes may fall between the two steps of a \<open>login\<close> call. Only a rejected
  login writes an \<open>error\<close>; as long as none settles in between, \<open>error\<close> is still \<open>null\<close>
  when the call settles.
\<close>

lemma auth_step_error_absent:
  assumes "error s = None"
    and "\<And>input. ev = LoginSettle input \<Longrightarrow> \<exists>u. fakeLoginApi input = Inr u"
  shows "error (auth_step ev s) = None"
proof (cases ev)
  case (LoginSettle input)
  with assms(2) obtain u where "fakeLoginApi input = Inr u" by blast
  with LoginSettle assms(1) show ?thesis by (simp add: login_settle_resolved)
qed (simp_all add: assms(1) login_start_def logout_def setUser_def clearError_def)

lemma run_auth_error_absent:
  assumes "error s = None"
    and "\<forall>ev \<in> set evs. \<forall>input. ev = LoginSettle input \<longrightarrow> (\<exists>u. fakeLoginApi input = Inr u)"
  shows "error (run_auth evs s) = None"
  using assms
proof (induction evs arbitrary: s)
  case Nil
  then show ?case by simp
next
  case (Cons ev evs)
  from Cons.prems have "error (auth_step ev s) = None"
    by (intro auth_step_error_absent) auto
  with Cons.prems show ?case by (simp add: Cons.IH)
qed

subsection \<open>The claims\<close>

text \<open>
  C1. In every state that a sequence of state changes of the store (a login starting, a
  login settling, \<open>logout\<close>, \<open>setUser\<close>, \<open>clearError\<close>) reaches from the initial state,
  \<open>isAuthenticated\<close> is true exactly when \<open>user\<close> is not \<open>null\<close>.
\<close>

theorem auth_invariant_reachable:
  "isAuthenticated (run_auth evs initialAuthState) = (user (run_auth evs initialAuthState) \<noteq> None)"
  using run_auth_invariant [OF initialAuthState_invariant, of evs]
  by (simp add: auth_invariant_def)

theorem auth_invariant_reachable_witness:
  "isAuthenticated
     (run_auth
        [LoginStart \<lparr>input_email = ascii ''test@test.com'', input_password = ascii ''1234''\<rparr>,
         ClearError,
         LoginSettle \<lparr>input_email = ascii ''test@test.com'', input_password = ascii ''1234''\<rparr>]
        initialAuthState)
   \<and> user
     (run_auth
        [LoginStart \<lparr>input_email = ascii ''test@test.com'', input_password = ascii ''1234''\<rparr>,
         ClearError,
         LoginSettle \<lparr>input_email = ascii ''test@test.com'', input_password = ascii ''1234''\<rparr>]
        initialAuthState) \<noteq> None"
  using auth_invariant_reachable
    [of "[LoginStart \<lparr>input_email = ascii ''test@test.com'', input_password = ascii ''1234''\<rparr>,
          ClearError,
          LoginSettle \<lparr>input_email = ascii ''test@test.com'', input_password = ascii ''1234''\<rparr>]"]
  by (simp add: fakeLoginApi_def login_settle_def)

text \<open>
  C2, as stated, when another call overlaps. A call of \<open>login\<close> with other credentials
  has started; the call with the email \<open>test@test.com\<close> and the password \<open>1234\<close> starts,
  and while it waits the other call is rejected and stores its message. The \<open>set\<close> of
  the \<open>try\<close> block writes no \<open>error\<close>, so the call ends signed in with the error of the
  other call still present.
\<close>

theorem login_reference_overlap_counterexample:
  "login \<lparr>input_email = ascii ''test@test.com'', input_password = ascii ''1234''\<rparr>
     [LoginSettle \<lparr>input_email = ascii ''x@x.com'', input_password = ascii ''wrong''\<rparr>]
     (auth_step (LoginStart \<lparr>input_email = ascii ''x@x.com'', input_password = ascii ''wrong''\<rparr>)
        initialAuthState) =
     \<lparr>user = Some \<lparr>id_field = ascii ''u_1'', name = testUserName,
                   email = ascii ''test@test.com''\<rparr>,
      isAuthenticated = True, isLoading = False, error = Some invalidCredentialsMessage\<rparr>
   \<and> error
       (login \<lparr>input_email = ascii ''test@test.com'', input_password = ascii ''1234''\<rparr>
          [LoginSettle \<lparr>input_email = ascii ''x@x.com'', input_password = ascii ''wrong''\<rparr>]
          (auth_step (LoginStart \<lparr>input_email = ascii ''x@x.com'', input_password = ascii ''wrong''\<rparr>)
             initialAuthState)) \<noteq> None"
  by (simp add: login_def fakeLoginApi_def login_settle_def login_start_def
      initialAuthState_def ascii_def)

text \<open>
  C2, amended. A call of \<open>login\<close> with the email \<open>test@test.com\<close> and the password
  \<open>1234\<close>, from any state, ends in the state with \<open>isAuthenticated = true\<close>, the test
  user as \<open>user\<close>, \<open>isLoading = false\<close> and \<open>error = null\<close>, provided that no login with
  other credentials settles between its first \<open>set\<close> and its last; any other state
  changes may fall in between, and there may be none.
\<close>

theorem login_reference_credentials:
  assumes "\<forall>ev \<in> set evs. \<forall>input. ev = LoginSettle input \<longrightarrow>
             input_email input = ascii ''test@test.com'' \<and> input_password input = ascii ''1234''"
  shows "login \<lparr>input_email = ascii ''test@test.com'', input_password = ascii ''1234''\<rparr> evs s =
           \<lparr>user = Some \<lparr>id_field = ascii ''u_1'', name = testUserName,
                         email = ascii ''test@test.com''\<rparr>,
            isAuthenticated = True, isLoading = False, error = None\<rparr>"
proof -
  from assms
  have resolved: "\<forall>ev \<in> set evs. \<forall>input. ev = LoginSettle input \<longrightarrow>
                    (\<exists>u. fakeLoginApi input = Inr u)"
    by (auto simp add: fakeLoginApi_def)
  have "error (login_start s) = None"
    by (simp add: login_start_def)
  then have "error (run_auth evs (login_start s)) = None"
    using resolved by (rule run_auth_error_absent)
  then show ?thesis
    by (simp add: login_def login_settle_resolved fakeLoginApi_accepts)
qed

theorem login_reference_credentials_witness:
  "login \<lparr>input_email = ascii ''test@test.com'', input_password = ascii ''1234''\<rparr>
     [] initialAuthState =
     \<lparr>user = Some \<lparr>id_field = ascii ''u_1'', name = testUserName,
                   email = ascii ''test@test.com''\<rparr>,
      isAuthenticated = True, isLoading = False, error = None\<rparr>
   \<and> login \<lparr>input_email = ascii ''test@test.com'', input_password = ascii ''1234''\<rparr>
     [Logout,
      LoginStart \<lparr>input_email = ascii ''test@test.com'', input_password = ascii ''1234''\<rparr>,
      LoginSettle \<lparr>input_email = ascii ''test@test.com'', input_password = ascii ''1234''\<rparr>,
      ClearError]
     (auth_step (LoginStart \<lparr>input_email = ascii ''x@x.com'', input_password = ascii ''wrong''\<rparr>)
        initialAuthState) =
     \<lparr>user = Some \<lparr>id_field = ascii ''u_1'', name = testUserName,
                   email = ascii ''test@test.com''\<rparr>,
      isAuthenticated = True, isLoading = False, error = None\<rparr>"
proof -
  have alone:
    "\<forall>ev \<in> set ([] :: auth_event list). \<forall>input. ev = LoginSettle input \<longrightarrow>
       input_email input = ascii ''test@test.com'' \<and> input_password input = ascii ''1234''"
    by simp
  have between:
    "\<forall>ev \<in> set [Logout,
        LoginStart \<lparr>input_email = ascii ''test@test.com'', input_password = ascii ''1234''\<rparr>,
        LoginSettle \<lparr>input_email = ascii ''test@test.com'', input_password = ascii ''1234''\<rparr>,
        ClearError].
       \<forall>input. ev = LoginSettle input \<longrightarrow>
         input_email input = ascii ''test@test.com'' \<and> input_password input = ascii ''1234''"
    by simp
  from login_reference_credentials [OF alone, of initialAuthState]
       login_reference_credentials [OF between,
         of "auth_step (LoginStart \<lparr>input_email = ascii ''x@x.com'', input_password = ascii ''wrong''\<rparr>)
               initialAuthState"]
  show ?thesis by simp
qed

text \<open>
  C3. A call of \<open>login\<close> with any other credentials, from any state and whatever other
  state changes fall between its two steps, ends in the state
  with \<open>isAuthenticated = false\<close>, \<open>user = null\<close>, \<open>isLoading = false\<close> and \<open>error\<close> the
  message of the \<open>Error\<close> that \<open>fakeLoginApi\<close> rejects with, which is not empty; the same
  state results whatever the state \<open>s'\<close> is when the promise settles. In general the
  \<open>catch\<close> block stores the message of the caught \<open>Error\<close>, and a fixed non-empty message
  when the caught value is no \<open>Error\<close>.
\<close>

theorem login_other_credentials:
  assumes "\<not> (input_email input = ascii ''test@test.com'' \<and> input_password input = ascii ''1234'')"
  shows "login input evs s =
           \<lparr>user = None, isAuthenticated = False, isLoading = False,
            error = Some invalidCredentialsMessage\<rparr>
         \<and> login_settle (fakeLoginApi input) s' =
           \<lparr>user = None, isAuthenticated = False, isLoading = False,
            error = Some invalidCredentialsMessage\<rparr>
         \<and> fakeLoginApi input = Inl (ErrorObject invalidCredentialsMessage)
         \<and> invalidCredentialsMessage \<noteq> []
         \<and> error (login_settle (Inl (ErrorObject m)) s') = Some m
         \<and> error (login_settle (Inl OtherValue) s') = Some unknownErrorMessage
         \<and> unknownErrorMessage \<noteq> []"
  using assms
  by (simp add: login_def fakeLoginApi_rejects login_settle_rejected
      invalidCredentialsMessage_nonempty unknownErrorMessage_nonempty)

theorem login_other_credentials_witness:
  "login \<lparr>input_email = ascii ''x@x.com'', input_password = ascii ''wrong''\<rparr>
     [] initialAuthState =
     \<lparr>user = None, isAuthenticated = False, isLoading = False,
      error = Some invalidCredentialsMessage\<rparr>
   \<and> invalidCredentialsMessage \<noteq> []"
proof -
  have other: "\<not> (input_email \<lparr>input_email = ascii ''x@x.com'', input_password = ascii ''wrong''\<rparr>
                    = ascii ''test@test.com''
                \<and> input_password \<lparr>input_email = ascii ''x@x.com'', input_password = ascii ''wrong''\<rparr>
                    = ascii ''1234'')"
    by (simp add: ascii_def)
  from login_other_credentials [OF other, of "[]" initialAuthState] show ?thesis
    by simp
qed

text \<open>
  C4. \<open>fakeLoginApi\<close> resolves, with a user, exactly when the email is \<open>test@test.com\<close>
  and the password is \<open>1234\<close>; for every other input it rejects with one and the same
  \<open>Error\<close>, whose message is not empty.
\<close>

theorem fakeLoginApi_contract:
  "((\<exists>u. fakeLoginApi input = Inr u) \<longleftrightarrow>
      (input_email input = ascii ''test@test.com'' \<and> input_password input = ascii ''1234''))
   \<and> (input_email input = ascii ''test@test.com'' \<and> input_password input = ascii ''1234'' \<longrightarrow>
        fakeLoginApi input =
          Inr \<lparr>id_field = ascii ''u_1'', name = testUserName, email = ascii ''test@test.com''\<rparr>)
   \<and> (\<not> (input_email input = ascii ''test@test.com'' \<and> input_password input = ascii ''1234'') \<longrightarrow>
        fakeLoginApi input = Inl (ErrorObject invalidCredentialsMessage))
   \<and> invalidCredentialsMessage \<noteq> []"
  by (auto simp add: fakeLoginApi_def invalidCredentialsMessage_nonempty)

theorem fakeLoginApi_contract_witness:
  "fakeLoginApi \<lparr>input_email = ascii ''test@test.com'', input_password = ascii ''1234''\<rparr> =
     Inr \<lparr>id_field = ascii ''u_1'', name = testUserName, email = ascii ''test@test.com''\<rparr>
   \<and> fakeLoginApi \<lparr>input_email = ascii ''test@test.com'', input_password = ascii ''12345''\<rparr> =
     Inl (ErrorObject invalidCredentialsMessage)"
proof -
  have wrong: "ascii ''12345'' \<noteq> ascii ''1234''"
    by (simp add: ascii_def)
  from fakeLoginApi_contract
         [of "\<lparr>input_email = ascii ''test@test.com'', input_password = ascii ''1234''\<rparr>"]
       fakeLoginApi_contract
         [of "\<lparr>input_email = ascii ''test@test.com'', input_password = ascii ''12345''\<rparr>"]
       wrong
  show ?thesis by simp
qed

text \<open>
  C5. Whatever the state and the credentials, the first state change of \<open>login\<close> sets
  \<open>isLoading\<close> to true and \<open>error\<close> to \<open>null\<close> and leaves \<open>user\<close> and \<open>isAuthenticated\<close> as
  they are; so when the call of \<open>fakeLoginApi\<close> starts, no error is present.
\<close>

theorem login_start_effect:
  "auth_step (LoginStart input) s = login_start s
   \<and> login input evs s = login_settle (fakeLoginApi input) (run_auth evs (login_start s))
   \<and> isLoading (login_start s)
   \<and> error (login_start s) = None
   \<and> user (login_start s) = user s
   \<and> isAuthenticated (login_start s) = isAuthenticated s"
  by (simp add: login_def login_start_def)

text \<open>
  C6. After \<open>logout\<close>, from any state, \<open>user\<close> is \<open>null\<close>, \<open>isAuthenticated\<close> is false and
  \<open>error\<close> is \<open>null\<close>; a second \<open>logout\<close> changes nothing.
\<close>

theorem logout_effect:
  "user (logout s) = None
   \<and> isAuthenticated (logout s) = False
   \<and> error (logout s) = None
   \<and> logout (logout s) = logout s"
  by (simp add: logout_def)

text \<open>
  C7. \<open>setUser(u)\<close>, from any state and for a user or \<open>null\<close>, sets \<open>user\<close> to \<open>u\<close> and
  \<open>isAuthenticated\<close> to whether \<open>u\<close> is not \<open>null\<close>, and leaves \<open>error\<close> and \<open>isLoading\<close> as
  they are; \<open>setUser(null)\<close> after it gives \<open>user = null\<close> and \<open>isAuthenticated = false\<close>.
\<close>

theorem setUser_effect:
  "user (setUser u s) = u
   \<and> isAuthenticated (setUser u s) = (u \<noteq> None)
   \<and> error (setUser u s) = error s
   \<and> isLoading (setUser u s) = isLoading s
   \<and> user (setUser None (setUser u s)) = None
   \<and> isAuthenticated (setUser None (setUser u s)) = False"
  by (simp add: setUser_def)

text \<open>
  C10. \<open>logout\<close> leaves \<open>isLoading\<close> as it is; called after a login has started and
  before it settles, it leaves \<open>isLoading\<close> true.
\<close>

theorem logout_keeps_isLoading:
  "isLoading (logout s) = isLoading s
   \<and> isLoading (logout (login_start s))"
  by (simp add: logout_def login_start_def)

section \<open>Properties of the counter store\<close>

subsection \<open>Supporting lemmas\<close>

lemma small_representable: "\<bar>z\<bar> \<le> 2 ^ 53 \<Longrightarrow> representable z"
  by (simp add: representable_def)

text \<open>Rounding leaves a double as it is.\<close>

lemma round_to_number_exact:
  assumes "representable z"
  shows "round_to_number z = Finite z"
proof (cases "\<bar>z\<bar> \<le> 2 ^ 53")
  case True
  then show ?thesis by (simp add: round_to_number_def)
next
  case False
  define e where "e = nat (bitlen \<bar>z\<bar> - 53)"
  from assms False have below: "\<bar>z\<bar> < 2 ^ 1024" and rest: "\<bar>z\<bar> mod 2 ^ e = 0"
    by (simp_all add: representable_def e_def Let_def)
  have half: "(0::int) < 2 ^ (e - 1)" by simp
  from rest have whole: "\<bar>z\<bar> div 2 ^ e * 2 ^ e = \<bar>z\<bar>" by auto
  have sign: "sgn z * \<bar>z\<bar> = z" by (simp add: mult_sgn_abs)
  show ?thesis
    using False below rest half whole sign
    by (simp add: round_to_number_def Let_def e_def [symmetric] del: bitlen_pow2)
qed

lemma canDecrease_cases:
  "canDecrease \<lparr>count = Finite c\<rparr> = (0 < c)"
  "canDecrease \<lparr>count = PosInfinity\<rparr>"
  "\<not> canDecrease \<lparr>count = NegInfinity\<rparr>"
  "\<not> canDecrease \<lparr>count = NaN\<rparr>"
  by (simp_all add: canDecrease_def)

subsection \<open>The claims\<close>

text \<open>
  C8, as stated, at the count \<open>2 ^ 53 = 9007199254740992\<close> and \<open>n = 1\<close>: the sum
  \<open>2 ^ 53 + 1\<close> is no double, and \<open>increaseBy(1)\<close> leaves the count at \<open>2 ^ 53\<close>.
\<close>

theorem increaseBy_inexact_counterexample:
  "count (increaseBy (Finite 1) \<lparr>count = Finite 9007199254740992\<rparr>) = Finite 9007199254740992
   \<and> count (increaseBy (Finite 1) \<lparr>count = Finite 9007199254740992\<rparr>)
       \<noteq> Finite (9007199254740992 + 1)"
  by code_simp

text \<open>
  C8, amended. For integers \<open>c\<close> and \<open>n\<close> whose sum is representable as a \<open>number\<close> (as
  every integer of magnitude at most \<open>2 ^ 53\<close> is), \<open>increaseBy(n)\<close> at the count \<open>c\<close>
  gives the count \<open>c + n\<close>; \<open>reset()\<close> gives the count 0 from every state.
\<close>

theorem increaseBy_reset_effect:
  "(count state = Finite c \<and> representable (c + n) \<longrightarrow>
      count (increaseBy (Finite n) state) = Finite (c + n))
   \<and> (count state = Finite c \<and> \<bar>c + n\<bar> \<le> 2 ^ 53 \<longrightarrow>
      count (increaseBy (Finite n) state) = Finite (c + n))
   \<and> count (reset state) = Finite 0"
  by (simp add: increaseBy_def reset_def round_to_number_exact small_representable)

theorem increaseBy_reset_effect_witness:
  "representable (5 + (- 7))
   \<and> count (increaseBy (Finite (- 7)) \<lparr>count = Finite 5\<rparr>) = Finite (- 2)
   \<and> count (reset \<lparr>count = Finite 5\<rparr>) = Finite 0"
proof -
  have rep: "representable (5 + (- 7))"
    by (simp add: representable_def)
  from increaseBy_reset_effect [of "\<lparr>count = Finite 5\<rparr>" 5 "- 7"] rep show ?thesis
    by simp
qed

text \<open>
  C9, as stated, at the count \<open>- (2 ^ 53)\<close>, where \<open>canDecrease()\<close> is false: the
  difference \<open>- (2 ^ 53) - 1\<close> is no double, and \<open>decrease()\<close> leaves the count as it is.
\<close>

theorem decrease_inexact_counterexample:
  "\<not> canDecrease \<lparr>count = Finite (- 9007199254740992)\<rparr>
   \<and> count (decrease \<lparr>count = Finite (- 9007199254740992)\<rparr>) = Finite (- 9007199254740992)
   \<and> count (decrease \<lparr>count = Finite (- 9007199254740992)\<rparr>)
       \<noteq> Finite (- 9007199254740992 - 1)"
  by code_simp

text \<open>
  C9, amended. At an integer count \<open>c\<close>, \<open>canDecrease()\<close> is true exactly when \<open>0 < c\<close>,
  and it is false after \<open>reset()\<close>. \<open>decrease()\<close> does not look at \<open>canDecrease()\<close>:
  whenever \<open>c - 1\<close> is representable as a \<open>number\<close> (as every integer of magnitude at
  most \<open>2 ^ 53\<close> is) it gives the count \<open>c - 1\<close>, which is negative when \<open>canDecrease()\<close>
  was false.
\<close>

theorem canDecrease_decrease_effect:
  "(count state = Finite c \<longrightarrow> canDecrease state = (0 < c))
   \<and> \<not> canDecrease (reset state)
   \<and> (count state = Finite c \<and> representable (c - 1) \<longrightarrow>
        count (decrease state) = Finite (c - 1))
   \<and> (count state = Finite c \<and> \<bar>c - 1\<bar> \<le> 2 ^ 53 \<longrightarrow>
        count (decrease state) = Finite (c - 1))
   \<and> (count state = Finite c \<and> representable (c - 1) \<and> \<not> canDecrease state \<longrightarrow>
        count (decrease state) = Finite (c - 1) \<and> c - 1 < 0)"
  by (auto simp add: canDecrease_def reset_def decrease_def round_to_number_exact
      small_representable)

theorem canDecrease_decrease_effect_witness:
  "representable (0 - 1)
   \<and> \<not> canDecrease (reset \<lparr>count = Finite 3\<rparr>)
   \<and> count (decrease (reset \<lparr>count = Finite 3\<rparr>)) = Finite (- 1)
   \<and> canDecrease \<lparr>count = Finite 3\<rparr>
   \<and> count (decrease \<lparr>count = Finite 3\<rparr>) = Finite 2"
proof -
  have rep: "representable (0 - 1)" "representable (3 - 1)"
    by (simp_all add: representable_def)
  have at0: "count (reset \<lparr>count = Finite 3\<rparr>) = Finite 0"
    by (simp add: reset_def)
  from canDecrease_decrease_effect [of "reset \<lparr>count = Finite 3\<rparr>" 0]
       canDecrease_decrease_effect [of "\<lparr>count = Finite 3\<rparr>" 3]
       rep at0
  show ?thesis by simp
qed

end
